theory Spec2Isabelle
  imports Main
begin

section \<open>Values, errors and host operations\<close>

text \<open>
  The criteria compiler of \<^verbatim>\<open>lib/query.js\<close> walks untyped JavaScript values. A value is
  modelled by the shapes that the module distinguishes: the values of JSON, \<^verbatim>\<open>undefined\<close>,
  regular expressions and dates. A \<open>char\<close> stands for one code unit below 256.

  \<^item> \<open>Obj\<close> is a plain object, given by the list of its own enumerable properties in
    enumeration order. A property that the module assigns is replaced in place or
    appended, so an object that the module builds agrees with the engine's as a mapping
    (the engine enumerates integer-like keys first).
  \<^item> \<open>Num n\<close> is the Number with the integer value \<open>n\<close>. Both zeros are \<open>Num 0\<close>, which
    \<^verbatim>\<open>===\<close> does not tell apart; beyond \<open>2^53\<close> read \<open>Num n\<close> as the Number nearest to \<open>n\<close>.
  \<^item> Floating point and calendar arithmetic are left uninterpreted. \<open>FloatOf s\<close> is the
    Number that \<^verbatim>\<open>parseFloat(s)\<close> returns; in criteria it stands for a Number without an
    integer value. \<open>DateOf s\<close> is the object \<^verbatim>\<open>new Date(s)\<close> and \<open>DateYMD y m d\<close> the object
    \<^verbatim>\<open>new Date(y, m, d)\<close>. The module never inspects any of the three after building it.
  \<^item> \<open>RegExp source flags\<close> is a regular expression.
\<close>

datatype error = ReferenceError string | TypeError string

datatype jsval =
    Undefined
  | Null
  | Bool bool
  | Num int
  | NaN
  | FloatOf string
  | Str string
  | RegExp string string
  | DateOf string
  | DateYMD nat int nat
  | Arr "jsval list"
  | Obj "(string \<times> jsval) list"

type_synonym result = "error + jsval"

text \<open>
  The schema is the read-only lookup handed to the constructor: a field that it declares
  maps to the \<^verbatim>\<open>type\<close> of its descriptor, \<open>None\<close> when the descriptor has no \<^verbatim>\<open>type\<close>.
\<close>

type_synonym schema = "string \<rightharpoonup> string option"

subsection \<open>Strings\<close>

definition lower_char :: "char \<Rightarrow> char" where
  "lower_char c =
     (let n = (of_char c :: nat)
      in if (65 \<le> n \<and> n \<le> 90) \<or> (192 \<le> n \<and> n \<le> 222 \<and> n \<noteq> 215)
         then char_of (n + 32) else c)"

definition toLowerCase :: "string \<Rightarrow> string" where
  "toLowerCase s = map lower_char s"

definition is_digit :: "char \<Rightarrow> bool" where
  "is_digit c = (let n = (of_char c :: nat) in 48 \<le> n \<and> n \<le> 57)"

text \<open>The value of a character as a digit of the radix, when it is one.\<close>

definition digit_of :: "nat \<Rightarrow> char \<Rightarrow> nat option" where
  "digit_of radix c =
     (let n = (of_char c :: nat);
          d = (if 48 \<le> n \<and> n \<le> 57 then Some (n - 48)
               else if 97 \<le> n \<and> n \<le> 122 then Some (n - 87)
               else if 65 \<le> n \<and> n \<le> 90 then Some (n - 55)
               else None)
      in case d of None \<Rightarrow> None | Some v \<Rightarrow> (if v < radix then Some v else None))"

definition is_radix_digit :: "nat \<Rightarrow> char \<Rightarrow> bool" where
  "is_radix_digit radix c = (digit_of radix c \<noteq> None)"

fun digits_value :: "nat \<Rightarrow> nat \<Rightarrow> string \<Rightarrow> nat" where
  "digits_value radix acc [] = acc"
| "digits_value radix acc (c # cs) =
     digits_value radix (acc * radix + (case digit_of radix c of Some v \<Rightarrow> v | None \<Rightarrow> 0)) cs"

text \<open>The white space that the host strips before a numeric literal, below 256.\<close>

definition is_space :: "char \<Rightarrow> bool" where
  "is_space c = ((of_char c :: nat) \<in> {9, 10, 11, 12, 13, 32, 160})"

subsection \<open>The host's \<^verbatim>\<open>parseInt\<close>\<close>

text \<open>
  \<^verbatim>\<open>parseInt(string, radix)\<close>, with the radix 0 when the argument is absent: skip leading
  white space, read a sign, settle the radix (10 when absent; with no radix or radix 16 a
  leading \<^verbatim>\<open>0x\<close> or \<^verbatim>\<open>0X\<close> is dropped and the radix is 16), and read the longest run of
  digits of that radix. No digit gives \<^verbatim>\<open>NaN\<close>.
\<close>

definition parseInt_radix :: "nat \<Rightarrow> string \<Rightarrow> jsval" where
  "parseInt_radix radix inputString =
     (let s1 = dropWhile is_space inputString;
          sign = (if s1 \<noteq> [] \<and> hd s1 = CHR ''-'' then (-1::int) else 1);
          s2 = (if s1 \<noteq> [] \<and> (hd s1 = CHR ''+'' \<or> hd s1 = CHR ''-'') then tl s1 else s1);
          stripPrefix = (radix = 0 \<or> radix = 16);
          hex = (stripPrefix \<and> (take 2 s2 = ''0x'' \<or> take 2 s2 = ''0X''));
          r = (if hex then 16 else if radix = 0 then 10 else radix);
          s3 = (if hex then drop 2 s2 else s2);
          z = takeWhile (is_radix_digit r) s3
      in if radix \<noteq> 0 \<and> (radix < 2 \<or> 36 < radix) then NaN
         else if z = [] then NaN
         else Num (sign * int (digits_value r 0 z)))"

text \<open>The call of the module, \<^verbatim>\<open>parseInt(val)\<close>, passes no radix.\<close>

definition parseInt :: "string \<Rightarrow> jsval" where
  "parseInt s = parseInt_radix 0 s"

subsection \<open>The checks of lodash that the module uses\<close>

definition isString :: "jsval \<Rightarrow> bool" where
  "isString v = (case v of Str _ \<Rightarrow> True | _ \<Rightarrow> False)"

definition isArray :: "jsval \<Rightarrow> bool" where
  "isArray v = (case v of Arr _ \<Rightarrow> True | _ \<Rightarrow> False)"

definition isNull :: "jsval \<Rightarrow> bool" where
  "isNull v = (v = Null)"

text \<open>A plain object is not a date, so \<^verbatim>\<open>_.isPlainObject(v) && !_.isDate(v)\<close> is this check.\<close>

definition isPlainObject :: "jsval \<Rightarrow> bool" where
  "isPlainObject v = (case v of Obj _ \<Rightarrow> True | _ \<Rightarrow> False)"

text \<open>\<^verbatim>\<open>_.has(object, key)\<close>: the object has the key as an own property.\<close>

definition has :: "jsval \<Rightarrow> string \<Rightarrow> bool" where
  "has v key = (case v of Obj kvs \<Rightarrow> map_of kvs key \<noteq> None | _ \<Rightarrow> False)"

text \<open>\<^verbatim>\<open>obj[key] = val\<close> on the properties of an object.\<close>

fun put :: "string \<Rightarrow> jsval \<Rightarrow> (string \<times> jsval) list \<Rightarrow> (string \<times> jsval) list" where
  "put key val [] = [(key, val)]"
| "put key val ((k, v) # kvs) = (if k = key then (k, val) # kvs else (k, v) # put key val kvs)"

text \<open>
  The accumulators of the module are plain objects. Assigning a property to any other
  value is not modelled (the value is kept): the only such accumulator would be a regular
  expression returned by a string-match branch of \<^verbatim>\<open>parseExpression\<close>.
\<close>

definition set_prop :: "string \<Rightarrow> jsval \<Rightarrow> jsval \<Rightarrow> jsval" where
  "set_prop key val obj = (case obj of Obj kvs \<Rightarrow> Obj (put key val kvs) | _ \<Rightarrow> obj)"

text \<open>\<^verbatim>\<open>_.extend(obj, source)\<close>: every own property of the source is assigned to \<open>obj\<close>.\<close>

definition extend :: "jsval \<Rightarrow> jsval \<Rightarrow> jsval" where
  "extend obj source =
     (case source of Obj kvs \<Rightarrow> fold (\<lambda>(k, v) acc. set_prop k v acc) kvs obj | _ \<Rightarrow> obj)"

text \<open>
  \<^verbatim>\<open>_.reduce\<close> walks a collection by index when it is array-like, and the callback then
  receives numeric keys. In the words of the documentation of lodash, objects with a
  \<^verbatim>\<open>length\<close> property are iterated like arrays: an array, a string, and also a plain object
  whose own property \<^verbatim>\<open>length\<close> is a non-negative integer up to \<open>2^53 - 1\<close>. Any other
  object is walked by its own keys, and a value without own enumerable properties is not
  walked at all. The module does not say which lodash it loads. The test above is the one
  of lodash 3 and 4; lodash 2 takes every numeric \<^verbatim>\<open>length\<close>. The versions agree on an
  integer from 0 to \<open>2^53 - 1\<close> and on a \<^verbatim>\<open>length\<close> that is not a Number, and the
  statements below about whole objects are made where they agree.
\<close>

definition array_length :: "(string \<times> jsval) list \<Rightarrow> nat option" where
  "array_length kvs =
     (case map_of kvs ''length'' of
        Some (Num n) \<Rightarrow> (if 0 \<le> n \<and> n \<le> 9007199254740991 then Some (nat n) else None)
      | _ \<Rightarrow> None)"

function show_nat :: "nat \<Rightarrow> string" where
  "show_nat n =
     (if n < 10 then [char_of (48 + n)] else show_nat (n div 10) @ [char_of (48 + n mod 10)])"
  by pat_completeness auto
termination
  by (relation "measure id") auto

datatype walk = Keyed "(string \<times> jsval) list" | Indexed "jsval list"

definition collection_walk :: "jsval \<Rightarrow> walk" where
  "collection_walk collection =
     (case collection of
        Obj kvs \<Rightarrow>
          (case array_length kvs of
             Some n \<Rightarrow>
               Indexed (map (\<lambda>i. case map_of kvs (show_nat i) of Some v \<Rightarrow> v | None \<Rightarrow> Undefined)
                          [0..<n])
           | None \<Rightarrow> Keyed kvs)
      | Arr xs \<Rightarrow> Indexed xs
      | Str s \<Rightarrow> Indexed (map (\<lambda>c. Str [c]) s)
      | _ \<Rightarrow> Keyed [])"

section \<open>ValueCoercer: \<^verbatim>\<open>parseValue\<close>\<close>

text \<open>
  The pattern \<^verbatim>\<open>/^\d{4}-\d{2}-\d{2}T\d{2}\:\d{2}\:\d{2}\.\d{3}Z$/\<close>, as a template in
  which a \<open>d\<close> stands for one decimal digit and every other character for itself.
\<close>

fun matches_template :: "string \<Rightarrow> string \<Rightarrow> bool" where
  "matches_template [] [] = True"
| "matches_template (t # ts) (c # cs) =
     ((if t = CHR ''d'' then is_digit c else c = t) \<and> matches_template ts cs)"
| "matches_template _ _ = False"

definition iso_timestamp :: "string \<Rightarrow> bool" where
  "iso_timestamp val = matches_template ''dddd-dd-ddTdd:dd:dd.dddZ'' val"

text \<open>\<^verbatim>\<open>val.split('-')\<close>\<close>

fun split_dash :: "string \<Rightarrow> string list" where
  "split_dash [] = [[]]"
| "split_dash (c # cs) =
     (if c = CHR ''-'' then [] # split_dash cs
      else (case split_dash cs of p # ps \<Rightarrow> (c # p) # ps | [] \<Rightarrow> [[c]]))"

text \<open>
  The pattern \<^verbatim>\<open>/^[1-9]\d{3}-\d{1,2}-\d{1,2}$/\<close>. On a match the result holds the arguments
  of \<^verbatim>\<open>new Date(parts[0], parts[1] - 1, parts[2])\<close>, where \<^verbatim>\<open>parts\<close> is \<^verbatim>\<open>val.split('-')\<close>.
\<close>

definition calendar_date :: "string \<Rightarrow> (nat \<times> int \<times> nat) option" where
  "calendar_date val =
     (case split_dash val of
        [y, m, d] \<Rightarrow>
          if length y = 4 \<and> list_all is_digit y \<and> hd y \<noteq> CHR ''0''
             \<and> (length m = 1 \<or> length m = 2) \<and> list_all is_digit m
             \<and> (length d = 1 \<or> length d = 2) \<and> list_all is_digit d
          then Some (digits_value 10 0 y, int (digits_value 10 0 m) - 1, digits_value 10 0 d)
          else None
      | _ \<Rightarrow> None)"

text \<open>
  The declared type of a field is compared with \<^verbatim>\<open>!=\<close>, \<^verbatim>\<open>==\<close> and \<^verbatim>\<open>===\<close>, which agree on
  a string and on \<^verbatim>\<open>undefined\<close>. The last test on the modifier returns the value on both
  sides, as in the source.
\<close>

definition parseValue :: "schema \<Rightarrow> string \<Rightarrow> string option \<Rightarrow> jsval \<Rightarrow> jsval" where
  "parseValue S field modifier val =
     (case val of
        Str s \<Rightarrow>
          (case S field of
             None \<Rightarrow> (if modifier = Some ''$ne'' then val else val)
           | Some ty \<Rightarrow>
               if ty \<noteq> Some ''string'' then
                 if ty = Some ''integer'' then parseInt s
                 else if ty = Some ''float'' then FloatOf s
                 else if (iso_timestamp s \<and> ty = Some ''date'') \<or> ty = Some ''datetime''
                   then DateOf s
                 else
                   (case (if ty = Some ''date'' then calendar_date s else None) of
                      Some (y, m, d) \<Rightarrow> DateYMD y m d
                    | None \<Rightarrow>
                        if s = ''false'' \<and> ty = Some ''boolean'' then Bool False
                        else if s = ''true'' \<and> ty = Some ''boolean'' then Bool True
                        else if modifier = Some ''$ne'' then val else val)
               else if modifier = Some ''$ne'' then val else val)
      | _ \<Rightarrow> val)"

section \<open>RegexEscaper\<close>

text \<open>
  \<^verbatim>\<open>Query.prototype.caseInsensitive\<close> puts a backslash before every character of the
  class \<^verbatim>\<open>[-[\]{}()+?*.\/,\\^$|#]\<close>. Nothing in the module calls it.
\<close>

definition regex_meta :: "char \<Rightarrow> bool" where
  "regex_meta c = (c \<in> set ''-[]{}()+?*./,^$|#'' \<or> c = CHR 0x5C)"

definition caseInsensitive :: "jsval \<Rightarrow> jsval" where
  "caseInsensitive val =
     (case val of
        Str s \<Rightarrow> Str (concat (map (\<lambda>c. if regex_meta c then [CHR 0x5C, c] else [c]) s))
      | _ \<Rightarrow> val)"

text \<open>
  The string-match branches of \<^verbatim>\<open>parseExpression\<close> call \<^verbatim>\<open>utils.caseInsensitive\<close>. The
  module declares two names, \<^verbatim>\<open>_\<close> and \<^verbatim>\<open>Query\<close>, and nothing declares \<^verbatim>\<open>utils\<close>:
  evaluating the name raises a \<^verbatim>\<open>ReferenceError\<close> before anything is called.
\<close>

definition string_of :: "jsval \<Rightarrow> string" where
  "string_of val = (case val of Str s \<Rightarrow> s | _ \<Rightarrow> [])"

definition utils_caseInsensitive :: "string \<Rightarrow> error + string" where
  "utils_caseInsensitive val = Inl (ReferenceError ''utils is not defined'')"

text \<open>\<^verbatim>\<open>val.replace(/%/g, '.*')\<close>\<close>

definition replace_percent :: "string \<Rightarrow> string" where
  "replace_percent val = concat (map (\<lambda>c. if c = CHR ''%'' then ''.*'' else [c]) val)"

section \<open>ExpressionParser: \<^verbatim>\<open>parseExpression\<close>\<close>

text \<open>
  \<open>parseExpression\<close> is the function, \<open>parseModifiers\<close> the loop of \<^verbatim>\<open>_.reduce\<close> over the
  own properties of the expression, and \<open>parseModifier\<close> the callback with its arguments
  \<^verbatim>\<open>(obj, val, modifier)\<close>. A callback that returns early returns the next accumulator.
  When the expression is array-like the first call receives the number 0 for
  \<^verbatim>\<open>modifier\<close>, and \<^verbatim>\<open>modifier.toLowerCase()\<close> raises.
\<close>

function parseExpression :: "schema \<Rightarrow> string \<Rightarrow> jsval \<Rightarrow> result"
  and parseModifiers :: "schema \<Rightarrow> string \<Rightarrow> (string \<times> jsval) list \<Rightarrow> jsval \<Rightarrow> result"
  and parseModifier :: "schema \<Rightarrow> string \<Rightarrow> jsval \<Rightarrow> jsval \<Rightarrow> string \<Rightarrow> result"
where
  "parseExpression S field expression =
     (case expression of
        Obj kvs \<Rightarrow>
          (case array_length kvs of
             Some n \<Rightarrow>
               if n = 0 then Inr (Obj [])
               else Inl (TypeError ''modifier.toLowerCase is not a function'')
           | None \<Rightarrow> parseModifiers S field kvs (Obj []))
      | Arr xs \<Rightarrow> Inr (Obj [(''$in'', parseValue S field (Some ''$in'') expression)])
      | _ \<Rightarrow> Inr (parseValue S field None expression))"
| "parseModifiers S field [] obj = Inr obj"
| "parseModifiers S field ((modifier, val) # rest) obj =
     (case parseModifier S field obj val modifier of
        Inl e \<Rightarrow> Inl e
      | Inr obj' \<Rightarrow> parseModifiers S field rest obj')"
| "parseModifier S field obj val modifier =
     (if modifier = ''!'' \<or> toLowerCase modifier = ''not'' then
        if isPlainObject val \<and> \<not> has val ''_bsontype'' then
          (case parseExpression S field val of
             Inl e \<Rightarrow> Inl e
           | Inr parsed \<Rightarrow> Inr (set_prop ''$not'' parsed obj))
        else
          (let modifier' = (if isArray val then ''$nin'' else ''$ne'');
               val' = parseValue S field (Some modifier') val
           in Inr (set_prop modifier' val' obj))
      else if isString val \<and> modifier = ''contains'' then
        (case utils_caseInsensitive (string_of val) of
           Inl e \<Rightarrow> Inl e
         | Inr v \<Rightarrow> Inr (RegExp (''^'' @ (''.*'' @ v @ ''.*'') @ ''$'') ''i''))
      else if isString val \<and> modifier = ''like'' then
        (case utils_caseInsensitive (string_of val) of
           Inl e \<Rightarrow> Inl e
         | Inr v \<Rightarrow> Inr (RegExp (''^'' @ replace_percent v @ ''$'') ''i''))
      else if isString val \<and> modifier = ''startsWith'' then
        (case utils_caseInsensitive (string_of val) of
           Inl e \<Rightarrow> Inl e
         | Inr v \<Rightarrow> Inr (RegExp (''^'' @ (v @ ''.*'') @ ''$'') ''i''))
      else if isString val \<and> modifier = ''endsWith'' then
        (case utils_caseInsensitive (string_of val) of
           Inl e \<Rightarrow> Inl e
         | Inr v \<Rightarrow> Inr (RegExp (''^'' @ (''.*'' @ v) @ ''$'') ''i''))
      else if modifier = ''<'' \<or> modifier = ''lessThan'' \<or> toLowerCase modifier = ''lt'' then
        Inr (set_prop ''$lt'' (parseValue S field (Some modifier) val) obj)
      else if modifier = ''<='' \<or> modifier = ''lessThanOrEqual'' \<or> toLowerCase modifier = ''lte''
        then Inr (set_prop ''$lte'' (parseValue S field (Some modifier) val) obj)
      else if modifier = ''>'' \<or> modifier = ''greaterThan'' \<or> toLowerCase modifier = ''gt'' then
        Inr (set_prop ''$gt'' (parseValue S field (Some modifier) val) obj)
      else if modifier = ''>='' \<or> modifier = ''greaterThanOrEqual''
              \<or> toLowerCase modifier = ''gte''
        then Inr (set_prop ''$gte'' (parseValue S field (Some modifier) val) obj)
      else Inr (set_prop modifier (parseValue S field (Some modifier) val) obj))"
  by pat_completeness auto
termination
  by (relation "measure (\<lambda>x. case x of
          Inl (S, field, expression) \<Rightarrow> 3 * size expression + 2
        | Inr (Inl (S, field, kvs, obj)) \<Rightarrow> 3 * size_list (size_prod (\<lambda>_. 0) size) kvs + 1
        | Inr (Inr (S, field, obj, val, modifier)) \<Rightarrow> 3 * size val + 3)")
    auto

declare parseExpression.simps [simp del] parseModifier.simps [simp del]

section \<open>ClauseParser: \<^verbatim>\<open>parseClause\<close>\<close>

text \<open>
  The entries that \<^verbatim>\<open>_.reduce\<close> hands to a callback, with a numeric key written as the
  property name it selects.
\<close>

definition walk_entries :: "walk \<Rightarrow> (string \<times> jsval) list" where
  "walk_entries w =
     (case w of Keyed kvs \<Rightarrow> kvs | Indexed xs \<Rightarrow> zip (map show_nat [0..<length xs]) xs)"

text \<open>
  The inner \<^verbatim>\<open>_.reduce\<close> of the \<^verbatim>\<open>like\<close> branch, with the callback
  \<^verbatim>\<open>parseLikeClauses(likes, expression, field)\<close>.
\<close>

fun parseLikeClauses :: "schema \<Rightarrow> (string \<times> jsval) list \<Rightarrow> jsval \<Rightarrow> result" where
  "parseLikeClauses S [] likes = Inr likes"
| "parseLikeClauses S ((field, expression) # rest) likes =
     (case parseExpression S field (Obj [(''like'', expression)]) of
        Inl e \<Rightarrow> Inl e
      | Inr parsed \<Rightarrow> parseLikeClauses S rest (set_prop field parsed likes))"

text \<open>
  \<open>parseClause\<close> is the function, \<open>parseClausePairs\<close> the loop of \<^verbatim>\<open>_.reduce\<close>,
  \<open>parseClausePair\<close> its callback with the arguments \<^verbatim>\<open>(obj, val, key)\<close>, and
  \<open>parseClauses\<close> the \<^verbatim>\<open>_.map\<close> over the clauses of a logical operator. The call is
  \<^verbatim>\<open>_.reduce(original, parseClausePair, {}, original)\<close>: the fourth argument is the
  \<^verbatim>\<open>this\<close> of the callback in lodash before version 4, so \<^verbatim>\<open>_.has(this, '_id')\<close> reads
  the clause that is being parsed. When the clause is array-like the first call receives
  the number 0 for \<^verbatim>\<open>key\<close>, and \<^verbatim>\<open>key.toLowerCase()\<close> raises.
\<close>

function parseClause :: "schema \<Rightarrow> jsval \<Rightarrow> result"
  and parseClausePairs :: "schema \<Rightarrow> jsval \<Rightarrow> (string \<times> jsval) list \<Rightarrow> jsval \<Rightarrow> result"
  and parseClausePair :: "schema \<Rightarrow> jsval \<Rightarrow> jsval \<Rightarrow> jsval \<Rightarrow> string \<Rightarrow> result"
  and parseClauses :: "schema \<Rightarrow> jsval list \<Rightarrow> error + jsval list"
where
  "parseClause S original =
     (case original of
        Obj kvs \<Rightarrow>
          (case array_length kvs of
             Some n \<Rightarrow>
               if n = 0 then Inr (Obj [])
               else Inl (TypeError ''key.toLowerCase is not a function'')
           | None \<Rightarrow> parseClausePairs S original kvs (Obj []))
      | Arr xs \<Rightarrow>
          if xs = [] then Inr (Obj []) else Inl (TypeError ''key.toLowerCase is not a function'')
      | Str s \<Rightarrow>
          if s = [] then Inr (Obj []) else Inl (TypeError ''key.toLowerCase is not a function'')
      | _ \<Rightarrow> Inr (Obj []))"
| "parseClausePairs S this [] obj = Inr obj"
| "parseClausePairs S this ((key, val) # rest) obj =
     (case parseClausePair S this obj val key of
        Inl e \<Rightarrow> Inl e
      | Inr obj' \<Rightarrow> parseClausePairs S this rest obj')"
| "parseClausePair S this obj val key0 =
     (let key = (if toLowerCase key0 = ''or'' then ''$or'' else key0)
      in if key \<in> set [''$or'', ''$and'', ''$nor''] then
           (case val of
              Arr clauses \<Rightarrow>
                (case parseClauses S clauses of
                   Inl e \<Rightarrow> Inl e
                 | Inr parsed \<Rightarrow> Inr (set_prop key (Arr parsed) obj))
            | _ \<Rightarrow> Inr obj)
         else if toLowerCase key = ''like'' then
           (case parseLikeClauses S (walk_entries (collection_walk val)) (Obj []) of
              Inl e \<Rightarrow> Inl e
            | Inr likes \<Rightarrow> Inr (extend obj likes))
         else
           (let key' = (if key = ''id'' \<and> \<not> has this ''_id'' then ''_id'' else key)
            in case parseExpression S key' val of
                 Inl e \<Rightarrow> Inl e
               | Inr val' \<Rightarrow> Inr (set_prop key' val' obj)))"
| "parseClauses S [] = Inr []"
| "parseClauses S (clause # rest) =
     (case parseClause S clause of
        Inl e \<Rightarrow> Inl e
      | Inr parsed \<Rightarrow>
          (case parseClauses S rest of Inl e \<Rightarrow> Inl e | Inr more \<Rightarrow> Inr (parsed # more)))"
  by pat_completeness auto
termination
  by (relation "measure (\<lambda>x. case x of
          Inl (Inl (S, original)) \<Rightarrow> 3 * size original + 2
        | Inl (Inr (S, this, kvs, obj)) \<Rightarrow> 3 * size_list (size_prod (\<lambda>_. 0) size) kvs + 1
        | Inr (Inl (S, this, obj, val, key)) \<Rightarrow> 3 * size val + 3
        | Inr (Inr (S, clauses)) \<Rightarrow> 3 * size_list size clauses + 1)")
    auto

declare parseClause.simps [simp del] parseClausePair.simps [simp del]

definition parseWhere :: "schema \<Rightarrow> jsval \<Rightarrow> result" where
  "parseWhere S original = (if isNull original then Inr (Obj []) else parseClause S original)"

section \<open>SortNormalizer: \<^verbatim>\<open>parseSort\<close>\<close>

text \<open>The callback of \<^verbatim>\<open>parseSort\<close>, with its arguments \<^verbatim>\<open>(sort, order, field)\<close>
  (\<open>sort'\<close> here, since \<open>sort\<close> is a constant of the list library).\<close>

definition parseSortPair :: "jsval \<Rightarrow> jsval \<Rightarrow> string \<Rightarrow> jsval" where
  "parseSortPair sort' order field0 =
     (let field = (if field0 = ''id'' then ''_id'' else field0)
      in set_prop field (if order \<in> set [Num 0, Num (- 1)] then Num (- 1) else Num 1) sort')"

definition parseSort :: "jsval \<Rightarrow> jsval" where
  "parseSort original =
     fold (\<lambda>(field, order) sort'. parseSortPair sort' order field)
       (walk_entries (collection_walk original)) (Obj [])"

section \<open>CriteriaNormalizer: \<^verbatim>\<open>normalizeCriteria\<close>\<close>

text \<open>
  \<^verbatim>\<open>_.mapValues\<close> visits the own properties of the criteria object, which is given by
  them, and assigns each result under the same key of a new object.
\<close>

definition normalizeValue :: "schema \<Rightarrow> jsval \<Rightarrow> string \<Rightarrow> result" where
  "normalizeValue S original key =
     (if key = ''where'' then parseWhere S original
      else if key = ''sort'' then Inr (parseSort original)
      else Inr original)"

fun mapValues :: "schema \<Rightarrow> (string \<times> jsval) list \<Rightarrow> jsval \<Rightarrow> result" where
  "mapValues S [] res = Inr res"
| "mapValues S ((key, original) # rest) res =
     (case normalizeValue S original key of
        Inl e \<Rightarrow> Inl e
      | Inr v \<Rightarrow> mapValues S rest (set_prop key v res))"

definition normalizeCriteria :: "schema \<Rightarrow> (string \<times> jsval) list \<Rightarrow> result" where
  "normalizeCriteria S options = mapValues S options (Obj [])"



section \<open>Reference readings\<close>



text \<open>\<^verbatim>\<open>typeof v == 'number'\<close>\<close>

definition isNumber :: "jsval \<Rightarrow> bool" where
  "isNumber v = (case v of Num _ \<Rightarrow> True | NaN \<Rightarrow> True | FloatOf _ \<Rightarrow> True | _ \<Rightarrow> False)"

text \<open>
  The object has no own property \<^verbatim>\<open>length\<close> that holds a Number: every version of lodash
  walks such an object by its own keys.
\<close>

definition keyed :: "(string \<times> jsval) list \<Rightarrow> bool" where
  "keyed kvs = (case map_of kvs ''length'' of Some v \<Rightarrow> \<not> isNumber v | None \<Rightarrow> True)"

text \<open>
  Regular criteria: the shapes on which the translation is shown to return. An expression
  is regular when every modifier map in it, followed through negations, has no numeric
  \<^verbatim>\<open>length\<close> and gives no string operand to \<^verbatim>\<open>contains\<close>, \<^verbatim>\<open>like\<close>, \<^verbatim>\<open>startsWith\<close> or
  \<^verbatim>\<open>endsWith\<close>.
\<close>

function regular_expression :: "jsval \<Rightarrow> bool"
  and regular_modifiers :: "(string \<times> jsval) list \<Rightarrow> bool"
  and regular_modifier :: "jsval \<Rightarrow> string \<Rightarrow> bool"
where
  "regular_expression expression =
     (case expression of Obj kvs \<Rightarrow> keyed kvs \<and> regular_modifiers kvs | _ \<Rightarrow> True)"
| "regular_modifiers [] = True"
| "regular_modifiers ((modifier, val) # rest) =
     (regular_modifier val modifier \<and> regular_modifiers rest)"
| "regular_modifier val modifier =
     (if modifier = ''!'' \<or> toLowerCase modifier = ''not'' then
        (case val of Obj kvs \<Rightarrow> has val ''_bsontype'' \<or> regular_expression val | _ \<Rightarrow> True)
      else \<not> (isString val
               \<and> modifier \<in> set [''contains'', ''like'', ''startsWith'', ''endsWith'']))"
  by pat_completeness auto
termination
  by (relation "measure (\<lambda>x. case x of
          Inl expression \<Rightarrow> 3 * size expression + 2
        | Inr (Inl kvs) \<Rightarrow> 3 * size_list (size_prod (\<lambda>_. 0) size) kvs + 1
        | Inr (Inr (val, modifier)) \<Rightarrow> 3 * size val + 3)")
    auto

text \<open>
  The value of a \<^verbatim>\<open>like\<close> key is regular when it is not a non-empty string and, as an
  object without numeric \<^verbatim>\<open>length\<close> or as an array, holds no string.
\<close>

definition regular_like :: "jsval \<Rightarrow> bool" where
  "regular_like val =
     (case val of
        Obj kvs \<Rightarrow> keyed kvs \<and> list_all (\<lambda>(field, expression). \<not> isString expression) kvs
      | Arr xs \<Rightarrow> list_all (\<lambda>expression. \<not> isString expression) xs
      | Str s \<Rightarrow> s = []
      | _ \<Rightarrow> True)"

text \<open>
  A clause is regular when it is a plain object without numeric \<^verbatim>\<open>length\<close> whose pairs are
  regular, or a value that \<^verbatim>\<open>_.reduce\<close> does not walk: anything but a non-empty array or
  string. The array under a logical operator holds regular clauses; any other value under
  a logical operator is regular, as it is ignored.
\<close>

function regular_clause :: "jsval \<Rightarrow> bool"
  and regular_pairs :: "(string \<times> jsval) list \<Rightarrow> bool"
  and regular_pair :: "jsval \<Rightarrow> string \<Rightarrow> bool"
  and regular_clauses :: "jsval list \<Rightarrow> bool"
where
  "regular_clause clause =
     (case clause of
        Obj kvs \<Rightarrow> keyed kvs \<and> regular_pairs kvs
      | Arr xs \<Rightarrow> xs = []
      | Str s \<Rightarrow> s = []
      | _ \<Rightarrow> True)"
| "regular_pairs [] = True"
| "regular_pairs ((key, val) # rest) = (regular_pair val key \<and> regular_pairs rest)"
| "regular_pair val key =
     (if toLowerCase key = ''or'' \<or> key \<in> set [''$or'', ''$and'', ''$nor''] then
        (case val of Arr clauses \<Rightarrow> regular_clauses clauses | _ \<Rightarrow> True)
      else if toLowerCase key = ''like'' then regular_like val
      else regular_expression val)"
| "regular_clauses [] = True"
| "regular_clauses (clause # rest) = (regular_clause clause \<and> regular_clauses rest)"
  by pat_completeness auto
termination
  by (relation "measure (\<lambda>x. case x of
          Inl (Inl clause) \<Rightarrow> 3 * size clause + 2
        | Inl (Inr kvs) \<Rightarrow> 3 * size_list (size_prod (\<lambda>_. 0) size) kvs + 1
        | Inr (Inl (val, key)) \<Rightarrow> 3 * size val + 3
        | Inr (Inr clauses) \<Rightarrow> 3 * size_list size clauses + 1)")
    auto


declare regular_expression.simps [simp del] regular_modifier.simps [simp del]
  regular_clause.simps [simp del] regular_pair.simps [simp del]

section \<open>Auxiliary facts\<close>



lemma lower_fixed:
  "toLowerCase ''!'' = ''!''" "toLowerCase ''<'' = ''<''" "toLowerCase ''<='' = ''<=''"
  "toLowerCase ''>'' = ''>''" "toLowerCase ''>='' = ''>=''"
  "toLowerCase ''lessThan'' = ''lessthan''" "toLowerCase ''lessThanOrEqual'' = ''lessthanorequal''"
  "toLowerCase ''greaterThan'' = ''greaterthan''"
  "toLowerCase ''greaterThanOrEqual'' = ''greaterthanorequal''"
  "toLowerCase ''contains'' = ''contains''" "toLowerCase ''like'' = ''like''"
  "toLowerCase ''startsWith'' = ''startswith''" "toLowerCase ''endsWith'' = ''endswith''"
  "toLowerCase ''id'' = ''id''" "toLowerCase ''$or'' = ''$or''" "toLowerCase ''$and'' = ''$and''"
  "toLowerCase ''$nor'' = ''$nor''" "toLowerCase ''length'' = ''length''"
  by code_simp+

lemma sum_case_id: "(case r of Inl e \<Rightarrow> Inl e | Inr x \<Rightarrow> Inr x) = r"
  by (cases r) simp_all

lemma array_length_single: "k \<noteq> ''length'' \<Longrightarrow> array_length [(k, v)] = None"
  by (simp add: array_length_def)

lemma parseExpression_single:
  "k \<noteq> ''length'' \<Longrightarrow> parseExpression S f (Obj [(k, v)]) = parseModifier S f (Obj []) v k"
  by (simp add: parseExpression.simps array_length_single split: sum.splits)


lemma parseValue_not_string: "\<not> isString v \<Longrightarrow> parseValue S f m v = v"
  by (simp add: parseValue_def isString_def split: jsval.splits)

lemma lower_lt: "toLowerCase ''<'' \<noteq> ''not''" "toLowerCase ''lessThan'' \<noteq> ''not''"
  by (simp_all add: lower_fixed)





lemma set_prop_empty: "set_prop k v (Obj []) = Obj [(k, v)]"
  by (simp add: set_prop_def)








lemma match_branch_raises:
  assumes "m = ''contains'' \<or> m = ''like'' \<or> m = ''startsWith'' \<or> m = ''endsWith''"
  shows "parseModifier S f obj (Str s) m = Inl (ReferenceError ''utils is not defined'')"
  using assms
  by (elim disjE) (simp_all add: parseModifier.simps lower_fixed isString_def
      utils_caseInsensitive_def)

lemma match_branch_passes:
  assumes "m = ''contains'' \<or> m = ''like'' \<or> m = ''startsWith'' \<or> m = ''endsWith''"
    and "\<not> isString v"
  shows "parseModifier S f obj v m = Inr (set_prop m (parseValue S f (Some m) v) obj)"
  using assms
  by (elim disjE) (simp_all add: parseModifier.simps lower_fixed)

lemma match_not_length:
  assumes "m = ''contains'' \<or> m = ''like'' \<or> m = ''startsWith'' \<or> m = ''endsWith''"
  shows "m \<noteq> ''length''"
  using assms by (elim disjE) simp_all


lemma lower_name: "toLowerCase ''name'' = ''name''" "toLowerCase ''age'' = ''age''"
   "toLowerCase ''or'' = ''or''" "toLowerCase ''NOT'' = ''not''" "toLowerCase ''not'' = ''not''"
  by code_simp+

lemma parseClause_single:
  "key \<noteq> ''length'' \<Longrightarrow>
   parseClause S (Obj [(key, val)]) = parseClausePair S (Obj [(key, val)]) (Obj []) val key"
  by (simp add: parseClause.simps array_length_single split: sum.splits)

lemma field_branch:
  assumes "toLowerCase key \<noteq> ''or''" and "key \<noteq> ''$or''" and "key \<noteq> ''$and''"
    and "key \<noteq> ''$nor''" and "toLowerCase key \<noteq> ''like''"
  shows "parseClausePair S this obj val key =
     (case parseExpression S (if key = ''id'' \<and> \<not> has this ''_id'' then ''_id'' else key) val of
        Inl e \<Rightarrow> Inl e
      | Inr val' \<Rightarrow>
          Inr (set_prop (if key = ''id'' \<and> \<not> has this ''_id'' then ''_id'' else key) val' obj))"
  using assms by (simp add: parseClausePair.simps Let_def)

lemma where_single:
  "normalizeCriteria S [(''where'', clause)] =
     (case parseWhere S clause of Inl e \<Rightarrow> Inl e | Inr v \<Rightarrow> Inr (Obj [(''where'', v)]))"
  by (simp add: normalizeCriteria_def normalizeValue_def set_prop_empty split: sum.splits)

lemma parseWhere_Obj: "parseWhere S (Obj kvs) = parseClause S (Obj kvs)"
  by (simp add: parseWhere_def isNull_def)

lemma like_branch:
  assumes "toLowerCase key = ''like''"
  shows "parseClausePair S this obj val key =
     (case parseLikeClauses S (walk_entries (collection_walk val)) (Obj []) of
        Inl e \<Rightarrow> Inl e
      | Inr likes \<Rightarrow> Inr (extend obj likes))"
proof -
  have "key \<noteq> ''$or''" "key \<noteq> ''$and''" "key \<noteq> ''$nor''"
    using assms by (auto simp: lower_fixed)
  then show ?thesis using assms by (simp add: parseClausePair.simps Let_def)
qed

lemma walk_single:
  "k \<noteq> ''length'' \<Longrightarrow> walk_entries (collection_walk (Obj [(k, v)])) = [(k, v)]"
  by (simp add: walk_entries_def collection_walk_def array_length_single)

lemma logical_branch:
  assumes "toLowerCase key = ''or'' \<or> key = ''$or'' \<or> key = ''$and'' \<or> key = ''$nor''"
  shows "parseClausePair S this obj val key =
     (case val of
        Arr clauses \<Rightarrow>
          (case parseClauses S clauses of
             Inl e \<Rightarrow> Inl e
           | Inr parsed \<Rightarrow>
               Inr (set_prop (if toLowerCase key = ''or'' then ''$or'' else key) (Arr parsed) obj))
      | _ \<Rightarrow> Inr obj)"
  using assms
  by (elim disjE)
    (simp_all add: parseClausePair.simps Let_def lower_fixed split: jsval.splits sum.splits)

lemma logical_not_length:
  assumes "toLowerCase key = ''or'' \<or> key = ''$or'' \<or> key = ''$and'' \<or> key = ''$nor''"
  shows "key \<noteq> ''length''"
proof
  assume "key = ''length''"
  with assms show False by (simp add: lower_fixed)
qed

lemma parseClauses_iff:
  "parseClauses S clauses = Inr parsed
     \<longleftrightarrow> list_all2 (\<lambda>clause p. parseClause S clause = Inr p) clauses parsed"
proof (induction clauses arbitrary: parsed)
  case Nil
  then show ?case by auto
next
  case (Cons c cs)
  show ?case
  proof (cases parsed)
    case Nil
    then show ?thesis by (simp split: sum.splits)
  next
    case (Cons p ps)
    then show ?thesis using Cons.IH [of ps] by (auto split: sum.splits)
  qed
qed

lemma sort_example: "parseSort (Obj [(''id'', Num (- 1))]) = Obj [(''_id'', Num (- 1))]"
  by code_simp

lemma parseValue_unchanged:
  "S field = None \<or> S field = Some (Some ''string'') \<Longrightarrow> parseValue S field m (Str s) = Str s"
  by (auto simp: parseValue_def)

lemma scalar_expression: "parseExpression S field (Str s) = Inr (parseValue S field None (Str s))"
  by (simp add: parseExpression.simps)




















section \<open>Translation returns\<close>




section \<open>String-match modifiers\<close>

text \<open>
  Claim C2 says that \<^verbatim>\<open>contains\<close>, \<^verbatim>\<open>like\<close>, \<^verbatim>\<open>startsWith\<close> and \<^verbatim>\<open>endsWith\<close> with a string
  operand yield an anchored, case-insensitive regular expression. For every schema, field
  and string operand each of the four raises a \<^verbatim>\<open>ReferenceError\<close> instead, because the
  branch evaluates the undeclared name \<^verbatim>\<open>utils\<close>: no regular expression is built, and the
  error reaches the caller of \<open>normalizeCriteria\<close>, as for
  \<^verbatim>\<open>{ where: { name: { contains: "a.b" } } }\<close>.
\<close>

theorem string_match_raises:
  "parseExpression S field (Obj [(''contains'', Str v)])
     = Inl (ReferenceError ''utils is not defined'')
   \<and> parseExpression S field (Obj [(''like'', Str v)])
     = Inl (ReferenceError ''utils is not defined'')
   \<and> parseExpression S field (Obj [(''startsWith'', Str v)])
     = Inl (ReferenceError ''utils is not defined'')
   \<and> parseExpression S field (Obj [(''endsWith'', Str v)])
     = Inl (ReferenceError ''utils is not defined'')
   \<and> normalizeCriteria S [(''where'', Obj [(''name'', Obj [(''contains'', Str ''a.b'')])])]
     = Inl (ReferenceError ''utils is not defined'')"
proof -
  have e: "parseExpression S f (Obj [(m, Str s)]) = Inl (ReferenceError ''utils is not defined'')"
    if "m = ''contains'' \<or> m = ''like'' \<or> m = ''startsWith'' \<or> m = ''endsWith''" for f m s
    using that
    by (simp add: parseExpression_single [OF match_not_length [OF that]] match_branch_raises)
  have "parseClause S (Obj [(''name'', Obj [(''contains'', Str ''a.b'')])])
      = Inl (ReferenceError ''utils is not defined'')"
    by (simp add: parseClause_single field_branch lower_name e)
  then have "normalizeCriteria S [(''where'', Obj [(''name'', Obj [(''contains'', Str ''a.b'')])])]
      = Inl (ReferenceError ''utils is not defined'')"
    by (simp add: where_single parseWhere_Obj)
  then show ?thesis
    by (simp add: e)
qed

text \<open>
  Claim C3 says that \<^verbatim>\<open>{ where: { like: { name: "jo%n" } } }\<close> translates to
  \<^verbatim>\<open>{ where: { name: /^jo.*n$/i } }\<close>. The clause parser does expand the pair to
  \<^verbatim>\<open>parseExpression(name, { like: "jo%n" })\<close>, and that call raises a \<^verbatim>\<open>ReferenceError\<close>
  under every schema.
\<close>

theorem like_shorthand_raises:
  "normalizeCriteria S [(''where'', Obj [(''like'', Obj [(''name'', Str ''jo%n'')])])]
     = Inl (ReferenceError ''utils is not defined'')"
proof -
  have "parseExpression S ''name'' (Obj [(''like'', Str ''jo%n'')])
      = Inl (ReferenceError ''utils is not defined'')"
    by (simp add: parseExpression_single match_branch_raises)
  then have "parseClausePair S this obj (Obj [(''name'', Str ''jo%n'')]) ''like''
      = Inl (ReferenceError ''utils is not defined'')" for this obj
    by (simp add: like_branch lower_fixed walk_single)
  then have "parseClause S (Obj [(''like'', Obj [(''name'', Str ''jo%n'')])])
      = Inl (ReferenceError ''utils is not defined'')"
    by (simp add: parseClause_single)
  then show ?thesis
    by (simp add: where_single parseWhere_Obj)
qed

text \<open>
  Claim C10. A string-match modifier whose operand is not a string builds no regular
  expression: under every schema and for every field the expression \<^verbatim>\<open>{ m: v }\<close> translates
  to \<^verbatim>\<open>{ m: coerce(v) }\<close> with the modifier kept as written, and the coerced operand is
  \<open>v\<close> itself; the callback assigns it under \<open>m\<close> to whatever it has accumulated.
\<close>

theorem string_match_non_string:
  assumes "m = ''contains'' \<or> m = ''like'' \<or> m = ''startsWith'' \<or> m = ''endsWith''"
    and "\<not> isString v"
  shows "parseExpression S field (Obj [(m, v)]) = Inr (Obj [(m, parseValue S field (Some m) v)])
    \<and> parseValue S field (Some m) v = v
    \<and> parseModifier S field obj v m = Inr (set_prop m v obj)"
proof -
  have "parseExpression S field (Obj [(m, v)]) = parseModifier S field (Obj []) v m"
    by (rule parseExpression_single [OF match_not_length [OF assms(1)]])
  also have "\<dots> = Inr (set_prop m (parseValue S field (Some m) v) (Obj []))"
    by (rule match_branch_passes [OF assms])
  finally have "parseExpression S field (Obj [(m, v)])
      = Inr (Obj [(m, parseValue S field (Some m) v)])"
    by (simp only: set_prop_empty)
  moreover have pv: "parseValue S field (Some m) v = v"
    by (rule parseValue_not_string [OF assms(2)])
  moreover have "parseModifier S field obj v m = Inr (set_prop m v obj)"
    using match_branch_passes [OF assms, of S field obj] pv by simp
  ultimately show ?thesis by blast
qed

text \<open>
  The claim at a number, an array and \<^verbatim>\<open>null\<close>, with a string field, an integer field and
  no schema.
\<close>

theorem string_match_non_string_witness:
  "\<not> isString (Num 7)
   \<and> parseExpression [''name'' \<mapsto> Some ''string''] ''name'' (Obj [(''contains'', Num 7)])
       = Inr (Obj [(''contains'', Num 7)])
   \<and> parseExpression [''age'' \<mapsto> Some ''integer''] ''age'' (Obj [(''like'', Arr [Str ''1''])])
       = Inr (Obj [(''like'', Arr [Str ''1''])])
   \<and> parseModifier Map.empty ''name'' (Obj [(''$gt'', Num 1)]) Null ''endsWith''
       = Inr (Obj [(''$gt'', Num 1), (''endsWith'', Null)])"
  using string_match_non_string [of "''contains''" "Num 7" "[''name'' \<mapsto> Some ''string'']" "''name''" "Obj []"]
    string_match_non_string [of "''like''" "Arr [Str ''1'']" "[''age'' \<mapsto> Some ''integer'']" "''age''" "Obj []"]
    string_match_non_string [of "''endsWith''" Null Map.empty "''name''" "Obj [(''$gt'', Num 1)]"]
  by (simp add: isString_def set_prop_def)

section \<open>The identity field\<close>




section \<open>Comparison operators\<close>




section \<open>Negation\<close>



section \<open>Logical operators\<close>

text \<open>
  Claim C7. For a clause key that is \<^verbatim>\<open>$or\<close>, \<^verbatim>\<open>$and\<close>, \<^verbatim>\<open>$nor\<close> or a letter-case variant
  of \<^verbatim>\<open>or\<close> (folded to \<^verbatim>\<open>$or\<close>): with an array value the callback assigns, under the
  folded key, the array of the parsed clauses, and a clause made of that pair alone
  becomes the object with that one entry; the parsed clauses are the element-wise results
  of \<open>parseClause\<close>; with any other value the accumulator is returned unchanged, so the
  key is absent from the output. The end-to-end example holds for every schema in which
  \<^verbatim>\<open>name\<close> is undeclared or a string.
\<close>

theorem logical_operators:
  assumes "toLowerCase key = ''or'' \<or> key = ''$or'' \<or> key = ''$and'' \<or> key = ''$nor''"
  shows "parseClausePair S this obj (Arr clauses) key =
       (case parseClauses S clauses of
          Inl e \<Rightarrow> Inl e
        | Inr parsed \<Rightarrow>
            Inr (set_prop (if toLowerCase key = ''or'' then ''$or'' else key) (Arr parsed) obj))
    \<and> parseClause S (Obj [(key, Arr clauses)]) =
       (case parseClauses S clauses of
          Inl e \<Rightarrow> Inl e
        | Inr parsed \<Rightarrow>
            Inr (Obj [(if toLowerCase key = ''or'' then ''$or'' else key, Arr parsed)]))
    \<and> (parseClauses S clauses = Inr parsed
         \<longleftrightarrow> list_all2 (\<lambda>clause p. parseClause S clause = Inr p) clauses parsed)
    \<and> (\<not> isArray val \<longrightarrow>
         parseClausePair S this obj val key = Inr obj
         \<and> parseClause S (Obj [(key, val)]) = Inr (Obj []))
    \<and> (S ''name'' = None \<or> S ''name'' = Some (Some ''string'') \<longrightarrow>
         normalizeCriteria S
           [(''where'', Obj [(''or'', Arr [Obj [(''name'', Str ''a'')], Obj [(''name'', Str ''b'')]])]),
            (''sort'', Obj [(''id'', Num (- 1))])]
         = Inr (Obj
           [(''where'', Obj [(''$or'', Arr [Obj [(''name'', Str ''a'')], Obj [(''name'', Str ''b'')]])]),
            (''sort'', Obj [(''_id'', Num (- 1))])]))"
proof -
  have pair: "parseClausePair S this obj (Arr clauses) key =
       (case parseClauses S clauses of
          Inl e \<Rightarrow> Inl e
        | Inr parsed \<Rightarrow>
            Inr (set_prop (if toLowerCase key = ''or'' then ''$or'' else key) (Arr parsed) obj))"
    for this obj
    by (simp add: logical_branch [OF assms])
  have clause: "parseClause S (Obj [(key, Arr clauses)]) =
       (case parseClauses S clauses of
          Inl e \<Rightarrow> Inl e
        | Inr parsed \<Rightarrow>
            Inr (Obj [(if toLowerCase key = ''or'' then ''$or'' else key, Arr parsed)]))"
    by (simp add: parseClause_single [OF logical_not_length [OF assms]] pair set_prop_empty
        split: sum.splits)
  have dropped: "parseClausePair S this obj val key = Inr obj" if "\<not> isArray val" for this obj
    using that by (simp add: logical_branch [OF assms] isArray_def split: jsval.splits)
  have dropped_clause: "parseClause S (Obj [(key, val)]) = Inr (Obj [])" if "\<not> isArray val"
    by (simp add: parseClause_single [OF logical_not_length [OF assms]] dropped [OF that])
  have example: "normalizeCriteria S
           [(''where'', Obj [(''or'', Arr [Obj [(''name'', Str ''a'')], Obj [(''name'', Str ''b'')]])]),
            (''sort'', Obj [(''id'', Num (- 1))])]
         = Inr (Obj
           [(''where'', Obj [(''$or'', Arr [Obj [(''name'', Str ''a'')], Obj [(''name'', Str ''b'')]])]),
            (''sort'', Obj [(''_id'', Num (- 1))])])"
    if name: "S ''name'' = None \<or> S ''name'' = Some (Some ''string'')"
  proof -
    have c: "parseClause S (Obj [(''name'', Str s)]) = Inr (Obj [(''name'', Str s)])" for s
    by (simp add: parseClause_single field_branch lower_name scalar_expression
        parseValue_unchanged [of S "''name''", OF name] set_prop_empty)
  have "parseClauses S [Obj [(''name'', Str ''a'')], Obj [(''name'', Str ''b'')]]
      = Inr [Obj [(''name'', Str ''a'')], Obj [(''name'', Str ''b'')]]"
    by (simp add: c)
  then have "parseClause S
       (Obj [(''or'', Arr [Obj [(''name'', Str ''a'')], Obj [(''name'', Str ''b'')]])])
      = Inr (Obj [(''$or'', Arr [Obj [(''name'', Str ''a'')], Obj [(''name'', Str ''b'')]])])"
    by (simp add: parseClause_single logical_branch lower_name set_prop_empty)
  then show ?thesis
    by (simp add: normalizeCriteria_def normalizeValue_def parseWhere_Obj sort_example
        set_prop_def)
  qed
  show ?thesis
    using pair clause parseClauses_iff [of S clauses parsed] dropped dropped_clause example
    by blast
qed

text \<open>
  The claim at \<^verbatim>\<open>OR\<close> with two clauses, at \<^verbatim>\<open>$nor\<close> with a string, and the example with no
  schema.
\<close>

theorem logical_operators_witness:
  "toLowerCase ''OR'' = ''or''
   \<and> parseClause Map.empty (Obj [(''OR'', Arr [Obj [(''a'', Num 1)], Null])])
       = Inr (Obj [(''$or'', Arr [Obj [(''a'', Num 1)], Obj []])])
   \<and> parseClausePair Map.empty Null (Obj [(''a'', Num 1)]) (Str ''x'') ''$nor''
       = Inr (Obj [(''a'', Num 1)])
   \<and> normalizeCriteria Map.empty
        [(''where'', Obj [(''or'', Arr [Obj [(''name'', Str ''a'')], Obj [(''name'', Str ''b'')]])]),
         (''sort'', Obj [(''id'', Num (- 1))])]
       = Inr (Obj
        [(''where'', Obj [(''$or'', Arr [Obj [(''name'', Str ''a'')], Obj [(''name'', Str ''b'')]])]),
         (''sort'', Obj [(''_id'', Num (- 1))])])"
proof -
  have l: "toLowerCase ''OR'' = ''or''"
    by code_simp
  have p: "parseClause Map.empty (Obj [(''a'', Num 1)]) = Inr (Obj [(''a'', Num 1)])"
    "parseClause Map.empty Null = Inr (Obj [])"
    by code_simp+
  have h1: "toLowerCase ''OR'' = ''or'' \<or> ''OR'' = ''$or'' \<or> ''OR'' = ''$and'' \<or> ''OR'' = ''$nor''"
    using l by simp
  have h2: "toLowerCase ''$nor'' = ''or'' \<or> ''$nor'' = ''$or'' \<or> ''$nor'' = ''$and''
      \<or> ''$nor'' = ''$nor''"
    by simp
  note or_clause = logical_operators [OF h1, where S = Map.empty
      and clauses = "[Obj [(''a'', Num 1)], Null]", THEN conjunct2, THEN conjunct1]
  note nor_dropped = logical_operators [OF h2, where S = Map.empty and this = Null
      and obj = "Obj [(''a'', Num 1)]" and val = "Str ''x''",
      THEN conjunct2, THEN conjunct2, THEN conjunct2, THEN conjunct1]
  note example = logical_operators [OF h2, where S = Map.empty,
      THEN conjunct2, THEN conjunct2, THEN conjunct2, THEN conjunct2]
  show ?thesis
    using or_clause nor_dropped example by (simp add: l p isArray_def)
qed

section \<open>Integer coercion\<close>




section \<open>Sort normalization\<close>




end
